theory Spec2Isabelle
  imports Complex_Main
begin

section \<open>Wire values and transport handles\<close>

text \<open>
  Every frame the servers send is \<^verbatim>\<open>JSON.stringify\<close> of an object literal, and every
  inbound frame goes through \<^verbatim>\<open>JSON.parse\<close>. Frames are modelled as the JSON value
  itself; an object is the list of its fields in the order the literal writes them.
  Numbers are integers (every number the servers produce is a \<^verbatim>\<open>Date.now()\<close>).
\<close>

datatype json =
    JNull
  | JBool bool
  | JNum int
  | JStr string
  | JArr "json list"
  | JObj "(string \<times> json) list"

text \<open>
  \<^verbatim>\<open>payload.k\<close> on a parsed value: \<open>None\<close> is \<^verbatim>\<open>undefined\<close>. Only an object has the
  fields the handlers read (\<^verbatim>\<open>type\<close>, \<^verbatim>\<open>message\<close>, \<^verbatim>\<open>image\<close>). Reading a property of
  \<^verbatim>\<open>null\<close> throws instead; the listeners below treat that value before they read.
\<close>

fun get_field :: "json \<Rightarrow> string \<Rightarrow> json option" where
  "get_field (JObj kvs) k = map_of kvs k"
| "get_field _ k = None"

text \<open>JavaScript truthiness of a property read.\<close>

fun truthy :: "json option \<Rightarrow> bool" where
  "truthy None = False"
| "truthy (Some JNull) = False"
| "truthy (Some (JBool b)) = b"
| "truthy (Some (JNum n)) = (n \<noteq> 0)"
| "truthy (Some (JStr s)) = (s \<noteq> [])"
| "truthy (Some (JArr xs)) = True"
| "truthy (Some (JObj kvs)) = True"

type_synonym ws = nat

datatype ready_state = CONNECTING | OPEN | CLOSING | CLOSED

text \<open>
  A transport handle: its \<^verbatim>\<open>readyState\<close> and the frames written to it so far, oldest
  first (what the peer receives, in order).
\<close>

record sock =
  readyState :: ready_state
  outbox :: "json list"

text \<open>
  \<^verbatim>\<open>ws.send(frame)\<close>: the frame reaches the peer when the handle is open; the transport
  library drops a frame written to a handle that is closing or closed.
\<close>

definition sock_send :: "json \<Rightarrow> 'a sock_scheme \<Rightarrow> 'a sock_scheme" where
  "sock_send m k = (if readyState k = OPEN then k\<lparr>outbox := outbox k @ [m]\<rparr> else k)"

text \<open>\<^verbatim>\<open>ws.close()\<close> starts the closing handshake.\<close>

definition sock_close :: "'a sock_scheme \<Rightarrow> 'a sock_scheme" where
  "sock_close k = (if readyState k = CLOSED then k else k\<lparr>readyState := CLOSING\<rparr>)"

text \<open>\<^verbatim>\<open>socket.destroy()\<close> on the raw socket of an upgrade request.\<close>

definition sock_destroy :: "'a sock_scheme \<Rightarrow> 'a sock_scheme" where
  "sock_destroy k = k\<lparr>readyState := CLOSED\<rparr>"

text \<open>A JavaScript \<^verbatim>\<open>Set\<close> of handles, in insertion order.\<close>

definition set_add :: "ws \<Rightarrow> ws list \<Rightarrow> ws list" where
  "set_add w xs = (if w \<in> set xs then xs else xs @ [w])"

section \<open>The standalone room servers\<close>

text \<open>
  Both standalone servers keep \<^verbatim>\<open>rooms\<close>, a \<^verbatim>\<open>Map\<close> from code to a room object
  \<^verbatim>\<open>{ clients, lastActive, messages }\<close>. The connection handler reads the room object
  once and its listeners keep that reference, so room objects live in a store of their
  own, addressed by the registry.
\<close>

type_synonym addr = nat

record room =
  clients :: "ws list"
  lastActive :: int
  messages :: "json list"

type_synonym env = "addr \<times> string \<times> string"

record conn = sock +
  bound :: "env option"

record server =
  rooms :: "string \<rightharpoonup> addr"
  heap :: "addr \<Rightarrow> room"
  next_addr :: addr
  socks :: "ws \<Rightarrow> conn"

text \<open>The process at start: an empty registry, no handle connected.\<close>

definition init_server :: server where
  "init_server =
     \<lparr>rooms = Map.empty,
      heap = (\<lambda>a. \<lparr>clients = [], lastActive = 0, messages = []\<rparr>),
      next_addr = 0,
      socks = (\<lambda>w. \<lparr>readyState = CONNECTING, outbox = [], bound = None\<rparr>)\<rparr>"

text \<open>
  \<^verbatim>\<open>rooms.set(code, { clients: new Set(), lastActive: Date.now(), messages: [] })\<close>:
  a new room object, and the registry entry that points at it.
\<close>

definition new_room :: "string \<Rightarrow> int \<Rightarrow> server \<Rightarrow> server" where
  "new_room c now s =
     s\<lparr>rooms := (rooms s)(c \<mapsto> next_addr s),
       heap := (heap s)(next_addr s := \<lparr>clients = [], lastActive = now, messages = []\<rparr>),
       next_addr := Suc (next_addr s)\<rparr>"

definition validate :: "string \<Rightarrow> server \<Rightarrow> bool" where
  "validate c s = (rooms s c \<noteq> None)"

subsection \<open>Sending\<close>

definition ws_send :: "ws \<Rightarrow> json \<Rightarrow> server \<Rightarrow> server" where
  "ws_send w m s = s\<lparr>socks := (socks s)(w := sock_send m (socks s w))\<rparr>"

definition ws_close :: "ws \<Rightarrow> server \<Rightarrow> server" where
  "ws_close w s = s\<lparr>socks := (socks s)(w := sock_close (socks s w))\<rparr>"

definition socket_destroy :: "ws \<Rightarrow> server \<Rightarrow> server" where
  "socket_destroy w s = s\<lparr>socks := (socks s)(w := sock_destroy (socks s w))\<rparr>"

text \<open>
  \<^verbatim>\<open>broadcast(room, payload)\<close>: the loop over \<^verbatim>\<open>room.clients\<close>, which writes to the
  clients whose \<^verbatim>\<open>readyState\<close> is \<^verbatim>\<open>OPEN\<close>.
\<close>

fun send_each :: "ws list \<Rightarrow> json \<Rightarrow> server \<Rightarrow> server" where
  "send_each [] m s = s"
| "send_each (c # cs) m s =
     send_each cs m (if readyState (socks s c) = OPEN then ws_send c m s else s)"

definition broadcast :: "addr \<Rightarrow> json \<Rightarrow> server \<Rightarrow> server" where
  "broadcast a m s = send_each (clients (heap s a)) m s"

subsection \<open>Frames\<close>

definition error_frame :: "string \<Rightarrow> json" where
  "error_frame txt = JObj [(''type'', JStr ''error''), (''message'', JStr txt)]"

definition joined_frame :: "string \<Rightarrow> json" where
  "joined_frame c = JObj [(''type'', JStr ''joined''), (''code'', JStr c)]"

definition history_frame :: "json list \<Rightarrow> json" where
  "history_frame ms = JObj [(''type'', JStr ''history''), (''messages'', JArr ms)]"

text \<open>\<^verbatim>\<open>{ type: "system", message: `User ${userId.slice(0, 4)} joined`, ts: Date.now() }\<close>\<close>

definition system_frame :: "string \<Rightarrow> int \<Rightarrow> json" where
  "system_frame userId t =
     JObj [(''type'', JStr ''system''),
           (''message'', JStr (''User '' @ take 4 userId @ '' joined'')),
           (''ts'', JNum t)]"

definition chat_record :: "string \<Rightarrow> string \<Rightarrow> json \<Rightarrow> int \<Rightarrow> json" where
  "chat_record roomCode userId m t =
     JObj [(''type'', JStr ''chat''), (''code'', JStr roomCode), (''userId'', JStr userId),
           (''message'', m), (''ts'', JNum t)]"

definition image_record :: "string \<Rightarrow> string \<Rightarrow> json \<Rightarrow> int \<Rightarrow> json" where
  "image_record roomCode userId i t =
     JObj [(''type'', JStr ''image''), (''code'', JStr roomCode), (''userId'', JStr userId),
           (''image'', i), (''ts'', JNum t)]"

subsection \<open>The connection handler\<close>

text \<open>
  \<^verbatim>\<open>wss.on("connection", (ws, request, roomCode, userId) => ...)\<close>. The two servers differ in
  the capacity constant only (\<open>2\<close> and \<open>10\<close>), the parameter \<open>cap\<close>. \<open>t1\<close> and \<open>t2\<close> are
  the two readings of \<^verbatim>\<open>Date.now()\<close>, in the order the handler takes them. A join that
  passes both checks registers the \<^verbatim>\<open>message\<close> listener, whose closure keeps the room
  object, \<^verbatim>\<open>roomCode\<close> and \<^verbatim>\<open>userId\<close>: the field \<open>bound\<close> of the handle.
\<close>

definition connection :: "nat \<Rightarrow> ws \<Rightarrow> string \<Rightarrow> string \<Rightarrow> int \<Rightarrow> int \<Rightarrow> server \<Rightarrow> server" where
  "connection cap w roomCode userId t1 t2 s =
     (case rooms s roomCode of
        None \<Rightarrow> ws_close w (ws_send w (error_frame ''Room not found'') s)
      | Some a \<Rightarrow>
          if length (clients (heap s a)) \<ge> cap
          then ws_close w (ws_send w (error_frame ''Room is full'') s)
          else
            let s1 = s\<lparr>heap := (heap s)(a := (heap s a)
                        \<lparr>clients := set_add w (clients (heap s a)), lastActive := t1\<rparr>)\<rparr>;
                s2 = ws_send w (joined_frame roomCode) s1;
                s3 = (if messages (heap s2 a) \<noteq> []
                      then ws_send w (history_frame (messages (heap s2 a))) s2 else s2);
                s4 = broadcast a (system_frame userId t2) s3
            in s4\<lparr>socks := (socks s4)(w := (socks s4 w)\<lparr>bound := Some (a, roomCode, userId)\<rparr>)\<rparr>)"

definition connection_ttl :: "ws \<Rightarrow> string \<Rightarrow> string \<Rightarrow> int \<Rightarrow> int \<Rightarrow> server \<Rightarrow> server" where
  "connection_ttl = connection 2"

definition connection_persist :: "ws \<Rightarrow> string \<Rightarrow> string \<Rightarrow> int \<Rightarrow> int \<Rightarrow> server \<Rightarrow> server" where
  "connection_persist = connection 10"

subsection \<open>The message listeners\<close>

text \<open>
  The inbound frame is given as the outcome of \<^verbatim>\<open>JSON.parse(data.toString())\<close>: \<open>None\<close>
  when it throws, the parsed value otherwise. Everything runs inside \<^verbatim>\<open>try\<close>, and the
  \<^verbatim>\<open>catch\<close> is empty: a frame that does not parse, and the value \<^verbatim>\<open>null\<close> (whose
  \<^verbatim>\<open>.type\<close> throws), leave the state as it is.
\<close>

definition accept_chat :: "addr \<Rightarrow> string \<Rightarrow> string \<Rightarrow> json \<Rightarrow> int \<Rightarrow> int \<Rightarrow> server \<Rightarrow> server" where
  "accept_chat a roomCode userId m t1 t2 s =
     (let s1 = s\<lparr>heap := (heap s)(a := (heap s a)\<lparr>lastActive := t1\<rparr>)\<rparr>;
          msg = chat_record roomCode userId m t2;
          s2 = s1\<lparr>heap := (heap s1)(a := (heap s1 a)\<lparr>messages := messages (heap s1 a) @ [msg]\<rparr>)\<rparr>
      in broadcast a msg s2)"

definition accept_image :: "addr \<Rightarrow> string \<Rightarrow> string \<Rightarrow> json \<Rightarrow> int \<Rightarrow> int \<Rightarrow> server \<Rightarrow> server" where
  "accept_image a roomCode userId i t1 t2 s =
     (let s1 = s\<lparr>heap := (heap s)(a := (heap s a)\<lparr>lastActive := t1\<rparr>)\<rparr>;
          msg = image_record roomCode userId i t2;
          s2 = s1\<lparr>heap := (heap s1)(a := (heap s1 a)\<lparr>messages := messages (heap s1 a) @ [msg]\<rparr>)\<rparr>
      in broadcast a msg s2)"

text \<open>The listener of the server with the TTL: \<^verbatim>\<open>chat\<close> frames only.\<close>

definition on_message_ttl ::
  "addr \<Rightarrow> string \<Rightarrow> string \<Rightarrow> json option \<Rightarrow> int \<Rightarrow> int \<Rightarrow> server \<Rightarrow> server" where
  "on_message_ttl a roomCode userId data t1 t2 s =
     (case data of
        None \<Rightarrow> s
      | Some payload \<Rightarrow>
          if payload = JNull then s
          else if get_field payload ''type'' = Some (JStr ''chat'')
                  \<and> truthy (get_field payload ''message'')
          then accept_chat a roomCode userId (the (get_field payload ''message'')) t1 t2 s
          else s)"

text \<open>
  The listener of the non-expiring server: a \<^verbatim>\<open>join\<close> frame is logged and dropped,
  \<^verbatim>\<open>chat\<close> and \<^verbatim>\<open>image\<close> frames are recorded and broadcast.
\<close>

definition on_message_persist ::
  "addr \<Rightarrow> string \<Rightarrow> string \<Rightarrow> json option \<Rightarrow> int \<Rightarrow> int \<Rightarrow> server \<Rightarrow> server" where
  "on_message_persist a roomCode userId data t1 t2 s =
     (case data of
        None \<Rightarrow> s
      | Some payload \<Rightarrow>
          if payload = JNull then s
          else if get_field payload ''type'' = Some (JStr ''join'') then s
          else if get_field payload ''type'' = Some (JStr ''chat'')
                  \<and> truthy (get_field payload ''message'')
          then accept_chat a roomCode userId (the (get_field payload ''message'')) t1 t2 s
          else if get_field payload ''type'' = Some (JStr ''image'')
                  \<and> truthy (get_field payload ''image'')
          then accept_image a roomCode userId (the (get_field payload ''image'')) t1 t2 s
          else s)"

text \<open>
  A \<^verbatim>\<open>message\<close> event on a handle runs the listener registered on it, with the
  environment the join bound; a handle that never joined has no listener.
\<close>

definition message_event_ttl :: "ws \<Rightarrow> json option \<Rightarrow> int \<Rightarrow> int \<Rightarrow> server \<Rightarrow> server" where
  "message_event_ttl w data t1 t2 s =
     (case bound (socks s w) of
        None \<Rightarrow> s
      | Some (a, roomCode, userId) \<Rightarrow> on_message_ttl a roomCode userId data t1 t2 s)"

definition message_event_persist :: "ws \<Rightarrow> json option \<Rightarrow> int \<Rightarrow> int \<Rightarrow> server \<Rightarrow> server" where
  "message_event_persist w data t1 t2 s =
     (case bound (socks s w) of
        None \<Rightarrow> s
      | Some (a, roomCode, userId) \<Rightarrow> on_message_persist a roomCode userId data t1 t2 s)"

subsection \<open>The upgrade handler\<close>

text \<open>
  \<^verbatim>\<open>server.on("upgrade", ...)\<close>. The request is given as what \<^verbatim>\<open>new URL(request.url, ...)\<close>
  yields: the path and the two query parameters (\<open>None\<close> is \<^verbatim>\<open>null\<close>). \<open>uuid\<close> is the
  value of \<^verbatim>\<open>randomUUID()\<close>. \<^verbatim>\<open>wss.handleUpgrade\<close> completes the handshake, which opens the
  handle, and emits \<^verbatim>\<open>connection\<close>.
\<close>

record request =
  pathname :: string
  code_param :: "string option"
  userId_param :: "string option"

definition handleUpgrade :: "ws \<Rightarrow> server \<Rightarrow> server" where
  "handleUpgrade w s = s\<lparr>socks := (socks s)(w := (socks s w)\<lparr>readyState := OPEN\<rparr>)\<rparr>"

definition upgrade :: "nat \<Rightarrow> request \<Rightarrow> ws \<Rightarrow> string \<Rightarrow> int \<Rightarrow> int \<Rightarrow> server \<Rightarrow> server" where
  "upgrade cap req w uuid t1 t2 s =
     (if pathname req \<noteq> ''/ws'' then socket_destroy w s
      else
        let userId = (case userId_param req of
                        None \<Rightarrow> uuid
                      | Some u \<Rightarrow> if u = [] then uuid else u)
        in (case code_param req of
              None \<Rightarrow> socket_destroy w s
            | Some c \<Rightarrow>
                if c = [] \<or> \<not> validate c s then socket_destroy w s
                else connection cap w c userId t1 t2 (handleUpgrade w s)))"

subsection \<open>Code generation and cleanup of the server with the TTL\<close>

text \<open>
  \<^verbatim>\<open>Math.floor(Math.random() * 10000).toString().padStart(4, "0")\<close>. \<open>toString\<close> is the
  decimal notation of a natural number, \<open>padStart\<close> is \<^verbatim>\<open>String.prototype.padStart\<close>.
\<close>

definition digit :: "nat \<Rightarrow> char" where
  "digit d = ''0123456789'' ! d"

fun toString :: "nat \<Rightarrow> string" where
  "toString n = (if n < 10 then [digit n] else toString (n div 10) @ [digit (n mod 10)])"

declare toString.simps [simp del]

definition padStart :: "nat \<Rightarrow> string \<Rightarrow> string \<Rightarrow> string" where
  "padStart n fill str =
     (if n \<le> length str \<or> fill = [] then str
      else take (n - length str) (concat (replicate (n - length str) fill)) @ str)"

definition random_code :: "real \<Rightarrow> string" where
  "random_code r = padStart 4 ''0'' (toString (nat \<lfloor>r * 10000\<rfloor>))"

text \<open>
  \<^verbatim>\<open>createCode\<close> of the server with the TTL. The \<^verbatim>\<open>do ... while (rooms.has(code))\<close> loop
  takes one value of \<^verbatim>\<open>Math.random()\<close> per round; the values it will see are the list
  \<open>draws\<close>. The result is \<open>None\<close> when the loop has not ended once the list is used up,
  and otherwise the code, the new state and the values not yet drawn.
\<close>

fun createCode_ttl :: "real list \<Rightarrow> int \<Rightarrow> server \<Rightarrow> (string \<times> server \<times> real list) option" where
  "createCode_ttl [] now s = None"
| "createCode_ttl (r # draws) now s =
     (let c = random_code r
      in if rooms s c \<noteq> None then createCode_ttl draws now s
         else Some (c, new_room c now s, draws))"

definition ttlMs :: int where
  "ttlMs = 10 * 60 * 1000"

text \<open>
  \<^verbatim>\<open>cleanup\<close>: the loop over the entries of the registry deletes the entry of every room
  that has no client and was last active more than \<^verbatim>\<open>ttlMs\<close> before \<open>now\<close>. Each entry
  is decided by its own room alone, so the loop is the registry filtered entry by entry.
\<close>

definition stale :: "int \<Rightarrow> room \<Rightarrow> bool" where
  "stale now r = (length (clients r) = 0 \<and> now - lastActive r > ttlMs)"

definition cleanup :: "int \<Rightarrow> server \<Rightarrow> server" where
  "cleanup now s =
     s\<lparr>rooms := (\<lambda>c. case rooms s c of
                       None \<Rightarrow> None
                     | Some a \<Rightarrow> if stale now (heap s a) then None else Some a)\<rparr>"

subsection \<open>Code generation of the non-expiring server\<close>

text \<open>
  \<^verbatim>\<open>createCode\<close> of the non-expiring server: the code is the constant \<^verbatim>\<open>"0000"\<close>, and
  the room is created only when the registry does not have it.
\<close>

definition createCode_persist :: "int \<Rightarrow> server \<Rightarrow> string \<times> server" where
  "createCode_persist now s =
     (let c = ''0000''
      in (c, if \<not> validate c s then new_room c now s else s))"

section \<open>The room service of the desktop application\<close>

text \<open>
  \<^verbatim>\<open>RoomService\<close> keeps \<^verbatim>\<open>rooms: Map<RoomCode, Room>\<close> and \<^verbatim>\<open>userRoom: Map<string,
  RoomCode>\<close>, and tags a handle with \<^verbatim>\<open>__roomCode\<close> and \<^verbatim>\<open>__userId\<close> when it joins. Every
  method reads the room from the registry by its code, so the registry holds the rooms
  themselves. A room has no message log.
\<close>

datatype status = Active | Closed

record svc_room =
  r_code :: string
  r_createdAt :: int
  r_lastActive :: int
  r_clients :: "ws list"
  r_status :: status

record tagged = sock +
  roomCode_tag :: "string option"
  userId_tag :: "string option"

record service =
  svc_rooms :: "string \<rightharpoonup> svc_room"
  userRoom :: "string \<rightharpoonup> string"
  port :: "nat option"
  svc_socks :: "ws \<Rightarrow> tagged"

definition init_service :: service where
  "init_service =
     \<lparr>svc_rooms = Map.empty, userRoom = Map.empty, port = None,
      svc_socks = (\<lambda>w. \<lparr>readyState = OPEN, outbox = [],
                         roomCode_tag = None, userId_tag = None\<rparr>)\<rparr>"

text \<open>The payloads, as the interfaces \<^verbatim>\<open>JoinPayload\<close> and \<^verbatim>\<open>ChatPayload\<close> declare them.\<close>

record JoinPayload =
  j_code :: string
  j_userId :: string

record ChatPayload =
  c_code :: string
  c_userId :: string
  c_message :: string

text \<open>
  The outcome of \<^verbatim>\<open>JSON.parse(data.toString())\<close> in \<^verbatim>\<open>handleConnection\<close>: it throws
  (\<open>Malformed\<close>), or yields a payload of type \<^verbatim>\<open>join\<close> or \<^verbatim>\<open>chat\<close>, or any other value
  (\<open>Other\<close>).
\<close>

datatype incoming = Malformed | Join JoinPayload | Chat ChatPayload | Other

text \<open>
  \<^verbatim>\<open>start()\<close> opens the socket server once; \<open>p\<close> is the port the system assigns.
\<close>

definition start :: "nat \<Rightarrow> service \<Rightarrow> service" where
  "start p s = (if port s \<noteq> None then s else s\<lparr>port := Some p\<rparr>)"

fun createRoom_from :: "real list \<Rightarrow> int \<Rightarrow> service \<Rightarrow> (string \<times> service \<times> real list) option" where
  "createRoom_from [] now s = None"
| "createRoom_from (r # draws) now s =
     (let c = random_code r
      in if svc_rooms s c \<noteq> None then createRoom_from draws now s
         else Some (c,
                    s\<lparr>svc_rooms := (svc_rooms s)(c \<mapsto>
                         \<lparr>r_code = c, r_createdAt = now, r_lastActive = now,
                          r_clients = [], r_status = Active\<rparr>)\<rparr>,
                    draws))"

definition createRoom :: "real list \<Rightarrow> int \<Rightarrow> nat \<Rightarrow> service \<Rightarrow> (string \<times> service \<times> real list) option" where
  "createRoom draws now p s = createRoom_from draws now (start p s)"

definition svc_send :: "ws \<Rightarrow> json \<Rightarrow> service \<Rightarrow> service" where
  "svc_send w m s = s\<lparr>svc_socks := (svc_socks s)(w := sock_send m (svc_socks s w))\<rparr>"

fun svc_send_each :: "ws list \<Rightarrow> json \<Rightarrow> service \<Rightarrow> service" where
  "svc_send_each [] m s = s"
| "svc_send_each (c # cs) m s =
     svc_send_each cs m (if readyState (svc_socks s c) = OPEN then svc_send c m s else s)"

definition svc_broadcast :: "svc_room \<Rightarrow> json \<Rightarrow> service \<Rightarrow> service" where
  "svc_broadcast room m s = svc_send_each (r_clients room) m s"

definition svc_system_frame :: "string \<Rightarrow> json" where
  "svc_system_frame c =
     JObj [(''type'', JStr ''system''), (''message'', JStr (''User joined room '' @ c))]"

definition svc_chat_frame :: "string \<Rightarrow> string \<Rightarrow> int \<Rightarrow> json" where
  "svc_chat_frame userId message t =
     JObj [(''type'', JStr ''chat''), (''userId'', JStr userId),
           (''message'', JStr message), (''ts'', JNum t)]"

definition handleJoin :: "ws \<Rightarrow> JoinPayload \<Rightarrow> int \<Rightarrow> service \<Rightarrow> service" where
  "handleJoin w payload now s =
     (let code = j_code payload; userId = j_userId payload
      in case svc_rooms s code of
           None \<Rightarrow> svc_send w (error_frame ''Room not found or inactive.'') s
         | Some room \<Rightarrow>
             if r_status room \<noteq> Active
             then svc_send w (error_frame ''Room not found or inactive.'') s
             else if (case userRoom s userId of
                        None \<Rightarrow> False
                      | Some existing \<Rightarrow> existing \<noteq> [] \<and> existing \<noteq> code)
             then svc_send w (error_frame ''User already in another room.'') s
             else
               let s1 = s\<lparr>svc_socks := (svc_socks s)(w := (svc_socks s w)
                           \<lparr>roomCode_tag := Some code, userId_tag := Some userId\<rparr>)\<rparr>;
                   s2 = s1\<lparr>userRoom := (userRoom s1)(userId \<mapsto> code)\<rparr>;
                   room' = room\<lparr>r_clients := set_add w (r_clients room), r_lastActive := now\<rparr>;
                   s3 = s2\<lparr>svc_rooms := (svc_rooms s2)(code \<mapsto> room')\<rparr>;
                   s4 = svc_send w (joined_frame code) s3
               in svc_broadcast room' (svc_system_frame code) s4)"

definition handleChat :: "ws \<Rightarrow> ChatPayload \<Rightarrow> int \<Rightarrow> int \<Rightarrow> service \<Rightarrow> service" where
  "handleChat w payload t1 t2 s =
     (let code = c_code payload; userId = c_userId payload; message = c_message payload
      in case svc_rooms s code of
           None \<Rightarrow> svc_send w (error_frame ''Room not found or inactive.'') s
         | Some room \<Rightarrow>
             if r_status room \<noteq> Active
             then svc_send w (error_frame ''Room not found or inactive.'') s
             else if roomCode_tag (svc_socks s w) \<noteq> Some code
             then svc_send w (error_frame ''You are not in this room.'') s
             else
               let room' = room\<lparr>r_lastActive := t1\<rparr>;
                   s1 = s\<lparr>svc_rooms := (svc_rooms s)(code \<mapsto> room')\<rparr>
               in svc_broadcast room' (svc_chat_frame userId message t2) s1)"

text \<open>The \<^verbatim>\<open>message\<close> listener that \<^verbatim>\<open>handleConnection\<close> registers on every handle.\<close>

definition svc_on_message :: "ws \<Rightarrow> incoming \<Rightarrow> int \<Rightarrow> int \<Rightarrow> service \<Rightarrow> service" where
  "svc_on_message w data t1 t2 s =
     (case data of
        Malformed \<Rightarrow> s
      | Join payload \<Rightarrow> handleJoin w payload t1 s
      | Chat payload \<Rightarrow> handleChat w payload t1 t2 s
      | Other \<Rightarrow> s)"

definition svc_ttlMs :: int where
  "svc_ttlMs = 10 * 60 * 1000"

text \<open>
  \<^verbatim>\<open>cleanup()\<close> collects the codes of the rooms with no client whose \<^verbatim>\<open>lastActive\<close> is
  more than \<^verbatim>\<open>ttlMs\<close> before \<open>now\<close>, then deletes each of them from the registry.
\<close>

definition svc_stale :: "int \<Rightarrow> svc_room \<Rightarrow> bool" where
  "svc_stale now r = (length (r_clients r) = 0 \<and> now - r_lastActive r > svc_ttlMs)"

definition svc_cleanup :: "int \<Rightarrow> service \<Rightarrow> service" where
  "svc_cleanup now s =
     s\<lparr>svc_rooms := (\<lambda>c. case svc_rooms s c of
                           None \<Rightarrow> None
                         | Some r \<Rightarrow> if svc_stale now r then None else Some r)\<rparr>"

section \<open>Properties\<close>

text \<open>
  C10. In the non-expiring server \<^verbatim>\<open>createCode\<close> always returns the code \<^verbatim>\<open>"0000"\<close>.
  When the registry already has a room under that code the call changes nothing: the
  registry, the room's client set, message log and \<^verbatim>\<open>lastActive\<close>, and everything else
  of the state are as before. The call is idempotent: a second call, at any later time,
  returns the same code and leaves the state of the first call as it is.
\<close>

theorem createCode_persist_fixed_and_preserving:
  "fst (createCode_persist now s) = ''0000''
   \<and> (rooms s ''0000'' = Some a \<longrightarrow> snd (createCode_persist now s) = s)
   \<and> createCode_persist now' (snd (createCode_persist now s))
       = (''0000'', snd (createCode_persist now s))"
  by (simp add: createCode_persist_def validate_def new_room_def Let_def)

theorem createCode_persist_fixed_and_preserving_witness:
  "rooms (new_room ''0000'' 5 init_server) ''0000'' = Some 0
   \<and> snd (createCode_persist 9 (new_room ''0000'' 5 init_server)) = new_room ''0000'' 5 init_server
   \<and> lastActive (heap (snd (createCode_persist 9 (new_room ''0000'' 5 init_server))) 0) = 5"
  using createCode_persist_fixed_and_preserving
          [of 9 "new_room ''0000'' 5 init_server" 0 9]
  by (simp add: new_room_def init_server_def)

end
